theory Spec2Isabelle
  imports Main "HOL-Library.Word" "HOL-Library.Sublist"
begin

section \<open>The xDS request state machine (pkg/envoy/ads/stream.go)\<close>

subsection \<open>Data model\<close>

text \<open>
  Modelled from the spec: the type \<open>envoy.TypeURI\<close> and its constants are declared in
  package \<open>envoy\<close>, which is not among the sources. The spec recognises five type URIs
  (Cluster, ClusterLoadAssignment, Listener, RouteConfiguration, Secret) and one reserved
  empty sentinel, so the type is an enumeration of these six.
\<close>

datatype TypeURI = TypeEmptyURI | TypeSDS | TypeCDS | TypeLDS | TypeRDS | TypeEDS

text \<open>
  Modelled from the spec: \<open>envoy.IsWildcardTypeURI\<close> is missing from the sources; the
  spec (and the comment in \<open>respondToRequest\<close>) name CDS and LDS as the wildcard types.
\<close>

definition IsWildcardTypeURI :: "TypeURI \<Rightarrow> bool" where
  "IsWildcardTypeURI t = (t = TypeCDS \<or> t = TypeLDS)"

datatype ProxyKind = KindSidecar | KindGateway

record K8sServiceAccount =
  Namespace :: string
  Name :: string

record PodMetadata =
  UID :: string
  PodName :: string
  PodNamespace :: string
  ServiceAccount :: K8sServiceAccount
  WorkloadKind :: string
  WorkloadName :: string

text \<open>
  Modelled from the spec: the struct \<open>envoy.Proxy\<close> is missing from the sources. The
  spec gives it a certificate common name and serial number, a kind, optional pod metadata
  and, per type URI, the last sent version, the last sent nonce, the last applied version,
  the subscribed resources and the resources last sent. The per-type fields are total
  functions: a type URI never written reads as version 0, the empty nonce and the empty set.
  Versions are \<open>uint64\<close>.
\<close>

record Proxy =
  certificateCommonName :: string
  certificateSerialNumber :: string
  kind :: ProxyKind
  podMetadata :: "PodMetadata option"
  lastSentVersion :: "TypeURI \<Rightarrow> 64 word"
  lastAppliedVersion :: "TypeURI \<Rightarrow> 64 word"
  lastNonce :: "TypeURI \<Rightarrow> string"
  lastxDSResourcesSent :: "TypeURI \<Rightarrow> string set"
  subscribedResources :: "TypeURI \<Rightarrow> string set"

text \<open>Modelled from the spec: the accessors of \<open>envoy.Proxy\<close> that \<open>stream.go\<close> calls.\<close>

definition GetLastSentNonce :: "Proxy \<Rightarrow> TypeURI \<Rightarrow> string" where
  "GetLastSentNonce p t = lastNonce p t"

definition GetLastResourcesSent :: "Proxy \<Rightarrow> TypeURI \<Rightarrow> string set" where
  "GetLastResourcesSent p t = lastxDSResourcesSent p t"

definition SetLastSentVersion :: "Proxy \<Rightarrow> TypeURI \<Rightarrow> 64 word \<Rightarrow> Proxy" where
  "SetLastSentVersion p t v = p\<lparr>lastSentVersion := (lastSentVersion p)(t := v)\<rparr>"

definition SetLastAppliedVersion :: "Proxy \<Rightarrow> TypeURI \<Rightarrow> 64 word \<Rightarrow> Proxy" where
  "SetLastAppliedVersion p t v = p\<lparr>lastAppliedVersion := (lastAppliedVersion p)(t := v)\<rparr>"

definition SetSubscribedResources :: "Proxy \<Rightarrow> TypeURI \<Rightarrow> string set \<Rightarrow> Proxy" where
  "SetSubscribedResources p t rs = p\<lparr>subscribedResources := (subscribedResources p)(t := rs)\<rparr>"

text \<open>
  The fields of \<open>xds_discovery.DiscoveryRequest\<close> that the handler reads. The error detail
  is a \<open>*status.Status\<close>; only its presence is tested.
\<close>

record Status =
  Code :: int
  Message :: string

record DiscoveryRequest =
  VersionInfo :: string
  ResourceNames :: "string list"
  TypeUrl :: string
  ResponseNonce :: string
  ErrorDetail :: "Status option"

text \<open>The counters of \<open>metricsstore.DefaultMetricsStore\<close> that the modelled code touches.\<close>

record MetricsStore =
  ProxyConnectCount :: int
  ProxyReconnectCount :: nat
  ProxyBroadcastEventCount :: nat

subsection \<open>Parsing the version\<close>

text \<open>
  \<open>strconv.ParseUint(s, 10, 64)\<close> of the Go standard library, on a non-empty string:
  every byte must be a decimal digit (a syntax error otherwise), and the value must fit 64
  bits (a range error otherwise). The loop keeps the accumulator \<open>n\<close> in a \<open>uint64\<close> and
  tests for overflow before the multiplication (\<open>n >= cutoff\<close>) and after the addition
  (\<open>n1 < n\<close>).
\<close>

datatype NumError = ErrSyntax | ErrRange

definition cutoff :: "64 word" where
  "cutoff = (- 1) div 10 + 1"

fun parseDigits :: "64 word \<Rightarrow> string \<Rightarrow> NumError + 64 word" where
  "parseDigits n [] = Inr n"
| "parseDigits n (c # cs) =
     (let b = (of_char c :: nat) in
      if \<not> (48 \<le> b \<and> b \<le> 57) then Inl ErrSyntax
      else if cutoff \<le> n then Inl ErrRange
      else
        let n' = n * 10; n1 = n' + of_nat (b - 48) in
        if n1 < n' then Inl ErrRange else parseDigits n1 cs)"

definition ParseUint :: "string \<Rightarrow> NumError + 64 word" where
  "ParseUint s = (if s = [] then Inl ErrSyntax else parseDigits 0 s)"

definition parseRequestVersion :: "DiscoveryRequest \<Rightarrow> NumError + 64 word" where
  "parseRequestVersion discoveryRequest =
     (if VersionInfo discoveryRequest = [] then Inr 0
      else ParseUint (VersionInfo discoveryRequest))"

subsection \<open>The decision to reply\<close>

text \<open>
  \<open>getRequestedResourceNamesSet\<close> adds the resource names one by one to a fresh
  \<open>mapset.Set\<close>. The set of the external library is a HOL set of strings.
\<close>

definition getRequestedResourceNamesSet :: "DiscoveryRequest \<Rightarrow> string set" where
  "getRequestedResourceNamesSet discoveryRequest =
     foldl (\<lambda>resourcesRequested name. insert name resourcesRequested) {}
       (ResourceNames discoveryRequest)"

text \<open>
  \<open>respondToRequest\<close> mutates the proxy and the reconnect counter and returns the decision;
  the model returns the decision with the proxy and the metrics store after the call. The map
  \<open>envoy.ValidURI\<close> (from type-url strings to type URIs) is missing from the sources and is
  a parameter. Log lines are left out.
\<close>

definition respondToRequest ::
  "(string \<rightharpoonup> TypeURI) \<Rightarrow> Proxy \<times> MetricsStore \<Rightarrow> DiscoveryRequest
     \<Rightarrow> bool \<times> Proxy \<times> MetricsStore" where
  "respondToRequest ValidURI pm discoveryRequest =
     (case pm of (proxy, metrics) \<Rightarrow>
      case ValidURI (TypeUrl discoveryRequest) of
        None \<Rightarrow> (False, proxy, metrics)
      | Some typeURL \<Rightarrow>
          if typeURL = TypeEmptyURI then (False, proxy, metrics)
          else
            case parseRequestVersion discoveryRequest of
              Inl err \<Rightarrow> (False, proxy, metrics)
            | Inr requestVersion \<Rightarrow>
                if ErrorDetail discoveryRequest \<noteq> None then (False, proxy, metrics)
                else
                  let requestNonce = ResponseNonce discoveryRequest in
                  if requestNonce = [] then
                    (True,
                     SetSubscribedResources proxy typeURL
                       (getRequestedResourceNamesSet discoveryRequest),
                     metrics)
                  else
                    let lastNonce = GetLastSentNonce proxy typeURL in
                    if lastNonce = [] then
                      (let proxy1 = SetLastSentVersion proxy typeURL requestVersion;
                           proxy2 = SetLastAppliedVersion proxy1 typeURL requestVersion;
                           proxy3 = SetSubscribedResources proxy2 typeURL
                                      (getRequestedResourceNamesSet discoveryRequest)
                       in (True, proxy3,
                           metrics\<lparr>ProxyReconnectCount := ProxyReconnectCount metrics + 1\<rparr>))
                    else if requestNonce \<noteq> lastNonce then (False, proxy, metrics)
                    else
                      let proxy1 = SetLastAppliedVersion proxy typeURL requestVersion in
                      if IsWildcardTypeURI typeURL then (False, proxy1, metrics)
                      else
                        let resourcesRequested = getRequestedResourceNamesSet discoveryRequest;
                            proxy2 = SetSubscribedResources proxy1 typeURL resourcesRequested;
                            resourcesLastSent = GetLastResourcesSent proxy2 typeURL
                        in if resourcesRequested \<noteq> resourcesLastSent
                           then (True, proxy2, metrics)
                           else (False, proxy2, metrics))"

subsection \<open>The broadcast arm of the stream's main loop\<close>

text \<open>
  A \<open>proxyResponseJob\<close> as built by \<open>newJob\<close>: the type URIs to regenerate and the
  triggering request, if any (the proxy, the stream, the server and the completion channel
  are the same for every job of one stream). Modelled from the spec: the work queue behind
  \<open>s.workqueues.AddJob\<close> is missing from the sources; here it is the list of the jobs
  enqueued so far, and \<open>AddJob\<close> appends to it.
\<close>

record proxyResponseJob =
  typeURIs :: "TypeURI list"
  request :: "DiscoveryRequest option"

definition newJob :: "TypeURI list \<Rightarrow> DiscoveryRequest option \<Rightarrow> proxyResponseJob" where
  "newJob ts discoveryRequest = \<lparr>typeURIs = ts, request = discoveryRequest\<rparr>"

definition AddJob :: "proxyResponseJob list \<Rightarrow> proxyResponseJob \<Rightarrow> proxyResponseJob list" where
  "AddJob workqueues job = workqueues @ [job]"

definition shouldPushUpdate :: "Proxy \<Rightarrow> bool" where
  "shouldPushUpdate proxy =
     (if GetLastSentNonce proxy TypeLDS = [] \<and> GetLastSentNonce proxy TypeCDS = []
      then False else True)"

text \<open>
  The arm \<open>case <-broadcastUpdate\<close> of the select loop of \<open>StreamAggregatedResources\<close>:
  the work queue after the arm has run.
\<close>

definition onBroadcastUpdate :: "Proxy \<Rightarrow> proxyResponseJob list \<Rightarrow> proxyResponseJob list" where
  "onBroadcastUpdate proxy workqueues =
     (if \<not> shouldPushUpdate proxy then workqueues
      else AddJob workqueues (newJob [TypeCDS, TypeEDS, TypeLDS, TypeRDS] None))"

text \<open>
  The arm \<open>case discoveryRequest, ok := <-requests\<close> of the same loop, for a request read
  from the open channel: the proxy, the metrics store and the work queue after the arm has
  run. The job is for \<open>envoy.TypeURI(discoveryRequest.TypeUrl)\<close>, the conversion of the
  type-url string; with type URIs an enumeration, that conversion is a parameter.
\<close>

definition onDiscoveryRequest ::
  "(string \<rightharpoonup> TypeURI) \<Rightarrow> (string \<Rightarrow> TypeURI)
     \<Rightarrow> Proxy \<times> MetricsStore \<times> proxyResponseJob list \<Rightarrow> DiscoveryRequest
     \<Rightarrow> Proxy \<times> MetricsStore \<times> proxyResponseJob list" where
  "onDiscoveryRequest ValidURI toTypeURI st discoveryRequest =
     (case st of (proxy, metrics, workqueues) \<Rightarrow>
      case respondToRequest ValidURI (proxy, metrics) discoveryRequest of
        (reply, proxy', metrics') \<Rightarrow>
          if \<not> reply then (proxy', metrics', workqueues)
          else
            let typesRequest = [toTypeURI (TypeUrl discoveryRequest)] in
            (proxy', metrics',
             AddJob workqueues (newJob typesRequest (Some discoveryRequest))))"

subsection \<open>Accepting a stream\<close>

text \<open>
  The errors a stream can end with. \<open>errTooManyConnections\<close>, \<open>errServiceAccountMismatch\<close>
  and \<open>errGrpcClosed\<close> are unexported values of package \<open>ads\<close>; an error made by another
  package is \<open>External\<close> (it can never be one of the three), and \<open>Wrap\<close> is
  \<open>errors.Wrap\<close> of such an error with a message.
\<close>

datatype error =
    errTooManyConnections
  | errServiceAccountMismatch
  | errGrpcClosed
  | External string
  | Wrap string string

text \<open>The fields of a Kubernetes pod that \<open>recordPodMetadata\<close> reads.\<close>

record OwnerReference =
  refController :: "bool option"
  refKind :: string
  refName :: string

record Pod =
  podUID :: string
  podName :: string
  podNamespace :: string
  podServiceAccountName :: string
  podOwnerReferences :: "OwnerReference list"

text \<open>
  The functions of other packages that the start of a stream calls; none of them is among
  the sources, so they are parameters: \<open>utils.ValidateClient\<close> (common name and serial
  number, or an error), \<open>utils.GetIPFromContext\<close>, \<open>envoy.NewProxy\<close>,
  \<open>envoy.GetPodFromCertificate\<close> (with the server's Kubernetes controller),
  \<open>envoy.GetServiceIdentityFromProxyCertificate\<close>, \<open>ServiceIdentity.ToK8sServiceAccount\<close>
  and, on a registry of any type \<open>'reg\<close>, \<open>GetConnectedProxyCount\<close> and
  \<open>RegisterProxy\<close>.
\<close>

record 'reg Collaborators =
  ValidateClient :: "string + (string \<times> string)"
  GetIPFromContext :: string
  NewProxy :: "string \<Rightarrow> string \<Rightarrow> string \<Rightarrow> string + Proxy"
  GetPodFromCertificate :: "string \<Rightarrow> string + Pod"
  GetServiceIdentityFromProxyCertificate :: "string \<Rightarrow> string + string"
  ToK8sServiceAccount :: "string \<Rightarrow> K8sServiceAccount"
  GetConnectedProxyCount :: "'reg \<Rightarrow> int"
  RegisterProxy :: "'reg \<Rightarrow> Proxy \<Rightarrow> 'reg"

text \<open>
  The server: the configured \<open>GetMaxDataPlaneConnections\<close>, the proxy registry and the
  metrics store.
\<close>

record 'reg Server =
  MaxDataPlaneConnections :: int
  proxyRegistry :: "'reg"
  metricsStore :: MetricsStore

text \<open>
  The loop of \<open>recordPodMetadata\<close> over the owner references: the first reference whose
  \<open>Controller\<close> is set and true gives the workload kind and name; with none, both stay
  empty.
\<close>

fun controllerOf :: "OwnerReference list \<Rightarrow> string \<times> string" where
  "controllerOf [] = ([], [])"
| "controllerOf (ref # refs) =
     (if refController ref \<noteq> None \<and> refController ref = Some True
      then (refKind ref, refName ref)
      else controllerOf refs)"

text \<open>
  \<open>recordPodMetadata\<close> returns the error (or nil) and the proxy as it leaves it: the pod
  metadata is stored before the service accounts are compared.
\<close>

definition recordPodMetadata ::
  "'reg Collaborators \<Rightarrow> Proxy \<Rightarrow> error option \<times> Proxy" where
  "recordPodMetadata c p =
     (if kind p = KindGateway then (None, p)
      else
        case GetPodFromCertificate c (certificateCommonName p) of
          Inl err \<Rightarrow> (None, p)
        | Inr pod \<Rightarrow>
            (let (workloadKind, workloadName) = controllerOf (podOwnerReferences pod);
                 md = \<lparr>UID = podUID pod, PodName = podName pod,
                       PodNamespace = podNamespace pod,
                       ServiceAccount = \<lparr>Namespace = podNamespace pod,
                                          Name = podServiceAccountName pod\<rparr>,
                       WorkloadKind = workloadKind, WorkloadName = workloadName\<rparr>;
                 p1 = p\<lparr>podMetadata := Some md\<rparr>;
                 cn = certificateCommonName p1
             in case GetServiceIdentityFromProxyCertificate c cn of
                  Inl err \<Rightarrow> (Some (External err), p1)
                | Inr certSA \<Rightarrow>
                    if ToK8sServiceAccount c certSA \<noteq> ServiceAccount md
                    then (Some errServiceAccountMismatch, p1)
                    else (None, p1)))"

text \<open>
  \<open>StreamAggregatedResources\<close> from its first line to the call of \<open>RegisterProxy\<close>:
  the result is the error the stream ends with, or the registered proxy with which the
  select loop starts, together with the server after these steps.
\<close>

definition StreamAggregatedResources_accept ::
  "'reg Collaborators \<Rightarrow> 'reg Server \<Rightarrow> (error + Proxy) \<times> 'reg Server" where
  "StreamAggregatedResources_accept c s =
     (case ValidateClient c of
        Inl err \<Rightarrow>
          (Inl (Wrap err ''Could not start Aggregated Discovery Service gRPC stream for newly connected Envoy proxy''), s)
      | Inr (certCommonName, certSerialNumber) \<Rightarrow>
          if MaxDataPlaneConnections s \<noteq> 0
             \<and> MaxDataPlaneConnections s \<le> GetConnectedProxyCount c (proxyRegistry s)
          then (Inl errTooManyConnections, s)
          else
            let s1 = s\<lparr>metricsStore := (metricsStore s)
                        \<lparr>ProxyConnectCount := ProxyConnectCount (metricsStore s) + 1\<rparr>\<rparr> in
            case NewProxy c certCommonName certSerialNumber (GetIPFromContext c) of
              Inl err \<Rightarrow> (Inl (External err), s1)
            | Inr proxy \<Rightarrow>
                (case recordPodMetadata c proxy of
                   (err, proxy') \<Rightarrow>
                     if err = Some errServiceAccountMismatch
                     then (Inl errServiceAccountMismatch, s1)
                     else (Inr proxy',
                           s1\<lparr>proxyRegistry := RegisterProxy c (proxyRegistry s1) proxy'\<rparr>)))"

section \<open>The event dispatcher (pkg/catalog/dispatcher.go)\<close>

text \<open>
  Modelled from the spec: the topics of package \<open>announcements\<close> are missing from the
  sources; the spec makes the topic an enumeration. Its members are the topics the dispatcher
  subscribes to, with \<open>ProxyBroadcast\<close> and \<open>CertificateRotated\<close>. The method
  \<open>String\<close> of a topic is missing too and is a parameter of the functions below.
\<close>

datatype AnnouncementType =
    ScheduleProxyBroadcast | ProxyBroadcast | CertificateRotated
  | EndpointAdded | EndpointDeleted | EndpointUpdated
  | NamespaceAdded | NamespaceDeleted | NamespaceUpdated
  | PodAdded | PodDeleted | PodUpdated
  | RouteGroupAdded | RouteGroupDeleted | RouteGroupUpdated
  | ServiceAdded | ServiceDeleted | ServiceUpdated
  | MultiClusterServiceAdded | MultiClusterServiceDeleted | MultiClusterServiceUpdated
  | ServiceAccountAdded | ServiceAccountDeleted | ServiceAccountUpdated
  | TrafficSplitAdded | TrafficSplitDeleted | TrafficSplitUpdated
  | TrafficTargetAdded | TrafficTargetDeleted | TrafficTargetUpdated
  | IngressAdded | IngressDeleted | IngressUpdated
  | TCPRouteAdded | TCPRouteDeleted | TCPRouteUpdated
  | EgressAdded | EgressDeleted | EgressUpdated
  | IngressBackendAdded | IngressBackendDeleted | IngressBackendUpdated

text \<open>
  \<open>events.PubSubMessage\<close>: the objects are interface values of any type \<open>'obj\<close>, nil
  being \<open>None\<close>; \<open>reflect.DeepEqual\<close> on them is equality in HOL.
\<close>

record 'obj PubSubMessage =
  AnnouncementType :: AnnouncementType
  OldObj :: "'obj option"
  NewObj :: "'obj option"

text \<open>What arrives on the subscription channel: a \<open>PubSubMessage\<close>, or a value of another type.\<close>

datatype 'obj busMessage = IsPubSubMessage "'obj PubSubMessage" | NotPubSubMessage

text \<open>\<open>strings.HasSuffix\<close> of the Go standard library.\<close>

definition HasSuffix :: "string \<Rightarrow> string \<Rightarrow> bool" where
  "HasSuffix s suf = (length suf \<le> length s \<and> drop (length s - length suf) s = suf)"

definition isDeltaUpdate :: "(AnnouncementType \<Rightarrow> string) \<Rightarrow> 'obj PubSubMessage \<Rightarrow> bool" where
  "isDeltaUpdate String psubMsg =
     (\<not> (HasSuffix (String (AnnouncementType psubMsg)) ''updated''
         \<and> OldObj psubMsg = NewObj psubMsg))"

text \<open>Durations and instants are in nanoseconds, the unit of \<open>time.Duration\<close>.\<close>

definition Second :: nat where
  "Second = 1000000000"

definition maxBroadcastDeadlineTime :: nat where
  "maxBroadcastDeadlineTime = 15 * Second"

definition maxGraceDeadlineTime :: nat where
  "maxGraceDeadlineTime = 3 * Second"

text \<open>
  The state of the loop of \<open>dispatcher\<close>: the flag and the two timer channels, with what the
  loop has published on the event bus and the metrics store. A channel is \<open>None\<close> when it is
  the fresh channel of \<open>make\<close>, on which nothing ever arrives, and \<open>Some t\<close> when it is the
  channel of a \<open>time.After\<close> that delivers at instant \<open>t\<close>.
\<close>

record 'obj dispatcherState =
  broadcastScheduled :: bool
  chanMovingDeadline :: "nat option"
  chanMaxDeadline :: "nat option"
  published :: "'obj PubSubMessage list"
  dispatcherMetrics :: MetricsStore

text \<open>The arm that the \<open>select\<close> takes in one iteration.\<close>

datatype 'obj selected =
    FromSubChannel "'obj busMessage"
  | FromMovingDeadline
  | FromMaxDeadline

text \<open>
  An arm can be taken at instant \<open>now\<close> when its channel has a value: a timer channel has
  one from its instant on, a fresh channel never.
\<close>

fun canReceive :: "nat \<Rightarrow> 'obj dispatcherState \<Rightarrow> 'obj selected \<Rightarrow> bool" where
  "canReceive now st (FromSubChannel message) = True"
| "canReceive now st FromMovingDeadline =
     (case chanMovingDeadline st of None \<Rightarrow> False | Some t \<Rightarrow> t \<le> now)"
| "canReceive now st FromMaxDeadline =
     (case chanMaxDeadline st of None \<Rightarrow> False | Some t \<Rightarrow> t \<le> now)"

text \<open>One iteration of the loop of \<open>dispatcher\<close>, run at instant \<open>now\<close> on the arm taken.\<close>

fun dispatcherStep ::
  "(AnnouncementType \<Rightarrow> string) \<Rightarrow> nat \<Rightarrow> 'obj dispatcherState \<Rightarrow> 'obj selected
     \<Rightarrow> 'obj dispatcherState" where
  "dispatcherStep String now st (FromSubChannel NotPubSubMessage) = st"
| "dispatcherStep String now st (FromSubChannel (IsPubSubMessage psubMessage)) =
     (let delta = isDeltaUpdate String psubMessage in
      if delta \<or> AnnouncementType psubMessage = ScheduleProxyBroadcast then
        if \<not> broadcastScheduled st then
          st\<lparr>broadcastScheduled := True,
             chanMaxDeadline := Some (now + maxBroadcastDeadlineTime),
             chanMovingDeadline := Some (now + maxGraceDeadlineTime)\<rparr>
        else st\<lparr>chanMovingDeadline := Some (now + maxGraceDeadlineTime)\<rparr>
      else st)"
| "dispatcherStep String now st FromMovingDeadline =
     st\<lparr>published := published st
           @ [\<lparr>AnnouncementType = ProxyBroadcast, OldObj = None, NewObj = None\<rparr>],
        dispatcherMetrics := (dispatcherMetrics st)
           \<lparr>ProxyBroadcastEventCount := ProxyBroadcastEventCount (dispatcherMetrics st) + 1\<rparr>,
        broadcastScheduled := False,
        chanMovingDeadline := None,
        chanMaxDeadline := None\<rparr>"
| "dispatcherStep String now st FromMaxDeadline =
     st\<lparr>published := published st
           @ [\<lparr>AnnouncementType = ProxyBroadcast, OldObj = None, NewObj = None\<rparr>],
        dispatcherMetrics := (dispatcherMetrics st)
           \<lparr>ProxyBroadcastEventCount := ProxyBroadcastEventCount (dispatcherMetrics st) + 1\<rparr>,
        broadcastScheduled := False,
        chanMovingDeadline := None,
        chanMaxDeadline := None\<rparr>"

text \<open>
  The loop on a finite sequence of iterations, each with its instant and the arm taken;
  \<open>None\<close> when the sequence takes an arm whose channel has no value at that instant, which
  the \<open>select\<close> cannot do.
\<close>

fun dispatcher ::
  "(AnnouncementType \<Rightarrow> string) \<Rightarrow> 'obj dispatcherState \<Rightarrow> (nat \<times> 'obj selected) list
     \<Rightarrow> 'obj dispatcherState option" where
  "dispatcher String st [] = Some st"
| "dispatcher String st ((now, arm) # rest) =
     (if canReceive now st arm then dispatcher String (dispatcherStep String now st arm) rest
      else None)"

section \<open>Example values\<close>

text \<open>
  Concrete values on which the theorems below are instantiated: a table of type-url strings
  (short names, the empty string being the sentinel), a proxy that has not been sent
  anything, a proxy in the middle of a stream, and requests after the scenarios of the spec.
\<close>

definition exValidURI :: "string \<rightharpoonup> TypeURI" where
  "exValidURI = map_of
     [([], TypeEmptyURI),
      (''Secret'', TypeSDS),
      (''Cluster'', TypeCDS),
      (''Listener'', TypeLDS),
      (''RouteConfiguration'', TypeRDS),
      (''ClusterLoadAssignment'', TypeEDS)]"

definition exMetrics :: MetricsStore where
  "exMetrics = \<lparr>ProxyConnectCount = 1, ProxyReconnectCount = 0, ProxyBroadcastEventCount = 0\<rparr>"

definition exFreshProxy :: Proxy where
  "exFreshProxy =
     \<lparr>certificateCommonName = ''bookbuyer.bookstore.cluster.local'',
      certificateSerialNumber = ''1234'',
      kind = KindSidecar,
      podMetadata = None,
      lastSentVersion = (\<lambda>t. 0),
      lastAppliedVersion = (\<lambda>t. 0),
      lastNonce = (\<lambda>t. []),
      lastxDSResourcesSent = (\<lambda>t. {}),
      subscribedResources = (\<lambda>t. {})\<rparr>"

definition exProxy :: Proxy where
  "exProxy =
     exFreshProxy
       \<lparr>lastSentVersion := (\<lambda>t. 0)(TypeCDS := 1, TypeLDS := 1, TypeRDS := 4),
        lastAppliedVersion := (\<lambda>t. 0)(TypeRDS := 3),
        lastNonce := (\<lambda>t. [])(TypeCDS := ''n1'', TypeLDS := ''nl'', TypeRDS := ''nr''),
        lastxDSResourcesSent := (\<lambda>t. {})(TypeRDS := {''A''}),
        subscribedResources := (\<lambda>t. {})(TypeRDS := {''A'', ''B''})\<rparr>"

definition exRequest :: "string \<Rightarrow> string \<Rightarrow> string \<Rightarrow> string list \<Rightarrow> DiscoveryRequest" where
  "exRequest url ver nonce names =
     \<lparr>VersionInfo = ver, ResourceNames = names, TypeUrl = url, ResponseNonce = nonce,
      ErrorDetail = None\<rparr>"

definition exNack :: DiscoveryRequest where
  "exNack = (exRequest ''Listener'' ''1'' ''nl'' [])
     \<lparr>ErrorDetail := Some \<lparr>Code = 3, Message = ''rejected''\<rparr>\<rparr>"

definition exPod :: Pod where
  "exPod =
     \<lparr>podUID = ''uid-1'', podName = ''bookbuyer-7d9c'', podNamespace = ''bookstore'',
      podServiceAccountName = ''bookbuyer'',
      podOwnerReferences =
        [\<lparr>refController = None, refKind = ''Job'', refName = ''other''\<rparr>,
         \<lparr>refController = Some True, refKind = ''ReplicaSet'', refName = ''bookbuyer-7d9c''\<rparr>]\<rparr>"

definition exCollaborators ::
  "ProxyKind \<Rightarrow> string + Pod \<Rightarrow> string + string \<Rightarrow> Proxy list Collaborators" where
  "exCollaborators k pod ident =
     \<lparr>ValidateClient = Inr (''bookbuyer.bookstore.cluster.local'', ''1234''),
      GetIPFromContext = ''10.0.0.7'',
      NewProxy = (\<lambda>cn sn ip. Inr (exFreshProxy\<lparr>certificateCommonName := cn,
                                               certificateSerialNumber := sn, kind := k\<rparr>)),
      GetPodFromCertificate = (\<lambda>cn. pod),
      GetServiceIdentityFromProxyCertificate = (\<lambda>cn. ident),
      ToK8sServiceAccount = (\<lambda>i. \<lparr>Namespace = ''bookstore'', Name = i\<rparr>),
      GetConnectedProxyCount = (\<lambda>reg. int (length reg)),
      RegisterProxy = (\<lambda>reg p. reg @ [p])\<rparr>"

definition exServer :: "int \<Rightarrow> Proxy list Server" where
  "exServer cap = \<lparr>MaxDataPlaneConnections = cap, proxyRegistry = [exProxy],
                   metricsStore = exMetrics\<rparr>"

definition exString :: "AnnouncementType \<Rightarrow> string" where
  "exString t =
     (if t = PodUpdated then ''pod-updated''
      else if t = PodAdded then ''pod-added''
      else if t = ScheduleProxyBroadcast then ''schedule-proxy-broadcast''
      else ''proxy-broadcast'')"

definition exMessage :: "AnnouncementType \<Rightarrow> nat option \<Rightarrow> nat option \<Rightarrow> nat PubSubMessage" where
  "exMessage t old new = \<lparr>AnnouncementType = t, OldObj = old, NewObj = new\<rparr>"

definition exIdle :: "nat dispatcherState" where
  "exIdle = \<lparr>broadcastScheduled = False, chanMovingDeadline = None, chanMaxDeadline = None,
             published = [], dispatcherMetrics = exMetrics\<rparr>"

definition exNewProxy :: "ProxyKind \<Rightarrow> Proxy" where
  "exNewProxy k = exFreshProxy\<lparr>certificateCommonName := ''bookbuyer.bookstore.cluster.local'',
       certificateSerialNumber := ''1234'', kind := k\<rparr>"

definition exWindow :: "(nat \<times> nat PubSubMessage) list" where
  "exWindow =
     [(2 * Second, exMessage PodUpdated (Some 1) (Some 2)),
      (4 * Second, exMessage ScheduleProxyBroadcast None None),
      (6 * Second, exMessage PodAdded None (Some 3)),
      (8 * Second, exMessage PodUpdated (Some 2) (Some 4)),
      (10 * Second, exMessage PodAdded None (Some 5)),
      (12 * Second, exMessage PodUpdated (Some 4) (Some 6)),
      (14 * Second, exMessage ScheduleProxyBroadcast None None)]"

section \<open>Properties of the request state machine\<close>

lemma getRequestedResourceNamesSet_fold:
  "foldl (\<lambda>acc name. insert name acc) A ns = A \<union> set ns"
  by (induction ns arbitrary: A) auto

lemma getRequestedResourceNamesSet_set:
  "getRequestedResourceNamesSet r = set (ResourceNames r)"
  by (simp add: getRequestedResourceNamesSet_def getRequestedResourceNamesSet_fold)

text \<open>
  \<open>parseRequestVersion\<close> succeeds exactly on the strings of decimal digits (the empty
  string included) that denote a number below \<open>2 ^ 64\<close>, and returns that number.
\<close>

lemma cutoff_val: "unat cutoff = 1844674407370955162"
  by (simp add: cutoff_def)

lemma foldl_digits_ge:
  "a \<le> foldl (\<lambda>(a::nat) c. 10 * a + (of_char c - 48)) (a::nat) s"
proof (induction s arbitrary: a)
  case Nil
  then show ?case by simp
next
  case (Cons c s)
  have "a \<le> 10 * a + (of_char c - 48)" by simp
  also have "\<dots> \<le> foldl (\<lambda>(a::nat) c. 10 * a + (of_char c - 48)) (10 * a + (of_char c - 48)) s"
    by (rule Cons.IH)
  finally show ?case by simp
qed

lemma parseDigits_Inr_iff:
  "parseDigits n s = Inr v \<longleftrightarrow>
     (\<forall>c \<in> set s. 48 \<le> (of_char c :: nat) \<and> (of_char c :: nat) \<le> 57)
     \<and> foldl (\<lambda>(a::nat) c. 10 * a + (of_char c - 48)) (unat n) s < 2 ^ 64
     \<and> v = of_nat (foldl (\<lambda>(a::nat) c. 10 * a + (of_char c - 48)) (unat n) s)"
proof (induction s arbitrary: n)
  case Nil
  then show ?case
    using unsigned_less [of n] by auto
next
  case (Cons c s)
  let ?b = "of_char c :: nat"
  let ?f = "\<lambda>(a::nat) c. 10 * a + ((of_char c :: nat) - 48)"
  show ?case
  proof (cases "48 \<le> ?b \<and> ?b \<le> 57")
    case False
    then show ?thesis by auto
  next
    case digit: True
    then have d9: "?b - 48 \<le> 9" by linarith
    have ud: "unat (of_nat (?b - 48) :: 64 word) = ?b - 48"
      using d9 by (simp add: unat_of_nat)
    show ?thesis
    proof (cases "cutoff \<le> n")
      case True
      then have "1844674407370955162 \<le> unat n"
        using cutoff_val by (simp add: word_le_nat_alt)
      then have "(2::nat) ^ 64 \<le> 10 * unat n + (?b - 48)" by simp
      also have "\<dots> \<le> foldl ?f (10 * unat n + (?b - 48)) s"
        by (rule foldl_digits_ge)
      finally have "\<not> foldl ?f (unat n) (c # s) < 2 ^ 64" by simp
      then show ?thesis using True digit by simp
    next
      case False
      then have lt: "unat n < 1844674407370955162"
        using cutoff_val by (simp add: word_le_nat_alt not_le)
      then have um: "unat (n * 10) = unat n * 10"
        by (simp add: unat_word_ariths)
      show ?thesis
      proof (cases "n * 10 + of_nat (?b - 48) < n * 10")
        case True
        then have "\<not> n * 10 \<le> n * 10 + of_nat (?b - 48)" by simp
        then have "(2::nat) ^ 64 \<le> unat (n * 10) + unat (of_nat (?b - 48) :: 64 word)"
          by (simp add: no_olen_add_nat)
        then have "(2::nat) ^ 64 \<le> 10 * unat n + (?b - 48)"
          using um ud by simp
        also have "\<dots> \<le> foldl ?f (10 * unat n + (?b - 48)) s"
          by (rule foldl_digits_ge)
        finally have "\<not> foldl ?f (unat n) (c # s) < 2 ^ 64" by simp
        then show ?thesis using True False digit by (simp add: Let_def)
      next
        case noov: False
        then have "n * 10 \<le> n * 10 + of_nat (?b - 48)" by simp
        then have "unat (n * 10) + unat (of_nat (?b - 48) :: 64 word) < 2 ^ 64"
          by (simp add: no_olen_add_nat)
        then have "unat (n * 10 + of_nat (?b - 48)) = 10 * unat n + (?b - 48)"
          using um ud by (simp add: unat_word_ariths)
        then show ?thesis
          using noov False digit Cons.IH [of "n * 10 + of_nat (?b - 48)"]
          by (simp add: Let_def)
      qed
    qed
  qed
qed

lemma parseRequestVersion_Inr_iff:
  "parseRequestVersion req = Inr v \<longleftrightarrow>
     (\<forall>c \<in> set (VersionInfo req). 48 \<le> (of_char c :: nat) \<and> (of_char c :: nat) \<le> 57)
     \<and> foldl (\<lambda>(a::nat) c. 10 * a + (of_char c - 48)) 0 (VersionInfo req) < 2 ^ 64
     \<and> v = of_nat (foldl (\<lambda>(a::nat) c. 10 * a + (of_char c - 48)) 0 (VersionInfo req))"
  by (simp add: parseRequestVersion_def ParseUint_def parseDigits_Inr_iff)

lemma parseRequestVersion_Inl_iff:
  "(\<exists>e. parseRequestVersion req = Inl e) \<longleftrightarrow>
     \<not> ((\<forall>c \<in> set (VersionInfo req). 48 \<le> (of_char c :: nat) \<and> (of_char c :: nat) \<le> 57)
        \<and> foldl (\<lambda>(a::nat) c. 10 * a + (of_char c - 48)) 0 (VersionInfo req) < 2 ^ 64)"
proof -
  have "(\<exists>e. parseRequestVersion req = Inl e) \<longleftrightarrow> \<not> (\<exists>v. parseRequestVersion req = Inr v)"
    by (cases "parseRequestVersion req") auto
  then show ?thesis
    by (simp add: parseRequestVersion_Inr_iff)
qed

text \<open>
  Claim C6. A request that carries an error detail (a NACK) is never answered, and the
  handler leaves the proxy as it was: last sent version, last sent nonce, last applied
  version, subscribed resources and last sent resources keep their values (and so does the
  metrics store). This holds whatever the type-url, version and nonce of the request are.
\<close>

theorem nack_is_inert:
  "ErrorDetail req \<noteq> None \<Longrightarrow>
     respondToRequest ValidURI (p, m) req = (False, p, m)"
  by (simp add: respondToRequest_def split: option.splits sum.splits)

theorem nack_is_inert_witness:
  "ErrorDetail exNack \<noteq> None \<and>
   respondToRequest exValidURI (exProxy, exMetrics) exNack = (False, exProxy, exMetrics)"
  using nack_is_inert [of exNack exValidURI exProxy exMetrics]
  by (simp add: exNack_def)

text \<open>
  What the handler does with a request that gets past the first four checks (its type-url
  is in the table and is not the sentinel, its version parses to \<open>v\<close>, it carries no error
  detail): the decision, the proxy and the metrics store after the call, by case on the
  nonces.
\<close>

lemma respondToRequest_reached:
  assumes "ValidURI (TypeUrl req) = Some t" and "t \<noteq> TypeEmptyURI"
    and "parseRequestVersion req = Inr v" and "ErrorDetail req = None"
  shows "respondToRequest ValidURI (p, m) req =
     (if ResponseNonce req = [] then
        (True, p\<lparr>subscribedResources := (subscribedResources p)(t := set (ResourceNames req))\<rparr>, m)
      else if lastNonce p t = [] then
        (True,
         p\<lparr>lastSentVersion := (lastSentVersion p)(t := v),
           lastAppliedVersion := (lastAppliedVersion p)(t := v),
           subscribedResources := (subscribedResources p)(t := set (ResourceNames req))\<rparr>,
         m\<lparr>ProxyReconnectCount := ProxyReconnectCount m + 1\<rparr>)
      else if ResponseNonce req \<noteq> lastNonce p t then (False, p, m)
      else if IsWildcardTypeURI t then
        (False, p\<lparr>lastAppliedVersion := (lastAppliedVersion p)(t := v)\<rparr>, m)
      else
        (set (ResourceNames req) \<noteq> lastxDSResourcesSent p t,
         p\<lparr>lastAppliedVersion := (lastAppliedVersion p)(t := v),
           subscribedResources := (subscribedResources p)(t := set (ResourceNames req))\<rparr>,
         m))"
  using assms
  by (simp add: respondToRequest_def getRequestedResourceNamesSet_set GetLastSentNonce_def
      GetLastResourcesSent_def SetLastSentVersion_def SetLastAppliedVersion_def
      SetSubscribedResources_def Let_def)

text \<open>
  Claim C7. A request is dropped, with no reply and with the proxy (all its per-type state)
  and the metrics store left as they were, in each of these cases: (i) its type-url is not in
  the table of known type URIs; (ii) its type URI is the reserved empty sentinel; (iii) its
  version fails to parse; (iv) it has no error detail and its nonce is non-empty and differs
  from the non-empty last sent nonce of the proxy for its type URI. An empty version is not
  a failure: it parses as 0. The version fails to parse exactly when it has a byte that is
  not a decimal digit or denotes a number that does not fit 64 bits.
\<close>

theorem dropped_request_is_inert:
  assumes "ValidURI (TypeUrl req) = None
         \<or> ValidURI (TypeUrl req) = Some TypeEmptyURI
         \<or> (\<exists>e. parseRequestVersion req = Inl e)
         \<or> (\<exists>t. ValidURI (TypeUrl req) = Some t \<and> ErrorDetail req = None
                \<and> ResponseNonce req \<noteq> [] \<and> GetLastSentNonce p t \<noteq> []
                \<and> ResponseNonce req \<noteq> GetLastSentNonce p t)"
  shows "respondToRequest ValidURI (p, m) req = (False, p, m)
       \<and> (VersionInfo req = [] \<longrightarrow> parseRequestVersion req = Inr 0)
       \<and> ((\<exists>e. parseRequestVersion req = Inl e) \<longleftrightarrow>
            \<not> ((\<forall>c \<in> set (VersionInfo req). 48 \<le> (of_char c :: nat) \<and> (of_char c :: nat) \<le> 57)
               \<and> foldl (\<lambda>(a::nat) c. 10 * a + (of_char c - 48)) 0 (VersionInfo req) < 2 ^ 64))"
proof -
  have "respondToRequest ValidURI (p, m) req = (False, p, m)"
    using assms
    by (auto simp add: respondToRequest_def Let_def split: option.splits sum.splits)
  moreover have "VersionInfo req = [] \<longrightarrow> parseRequestVersion req = Inr 0"
    by (simp add: parseRequestVersion_def)
  ultimately show ?thesis
    using parseRequestVersion_Inl_iff [of req] by simp
qed

theorem dropped_request_is_inert_witness:
  "exValidURI (TypeUrl (exRequest ''Unknown'' ''1'' ''n1'' [])) = None
   \<and> respondToRequest exValidURI (exProxy, exMetrics) (exRequest ''Unknown'' ''1'' ''n1'' [])
       = (False, exProxy, exMetrics)
   \<and> exValidURI (TypeUrl (exRequest [] ''1'' [] [])) = Some TypeEmptyURI
   \<and> respondToRequest exValidURI (exProxy, exMetrics) (exRequest [] ''1'' [] [])
       = (False, exProxy, exMetrics)
   \<and> parseRequestVersion (exRequest ''Cluster'' ''1x'' ''n1'' []) = Inl ErrSyntax
   \<and> respondToRequest exValidURI (exProxy, exMetrics) (exRequest ''Cluster'' ''1x'' ''n1'' [])
       = (False, exProxy, exMetrics)
   \<and> GetLastSentNonce exProxy TypeRDS = ''nr''
   \<and> respondToRequest exValidURI (exProxy, exMetrics)
         (exRequest ''RouteConfiguration'' ''4'' ''stale'' [''A'', ''C''])
       = (False, exProxy, exMetrics)"
  using dropped_request_is_inert
          [of exValidURI "exRequest ''Unknown'' ''1'' ''n1'' []" exProxy exMetrics]
        dropped_request_is_inert
          [of exValidURI "exRequest [] ''1'' [] []" exProxy exMetrics]
        dropped_request_is_inert
          [of exValidURI "exRequest ''Cluster'' ''1x'' ''n1'' []" exProxy exMetrics]
        dropped_request_is_inert
          [of exValidURI "exRequest ''RouteConfiguration'' ''4'' ''stale'' [''A'', ''C'']"
              exProxy exMetrics]
  by (simp add: exValidURI_def exRequest_def exProxy_def GetLastSentNonce_def
      parseRequestVersion_def ParseUint_def cutoff_def)

text \<open>
  Claim C3. A request with a known type URI \<open>t\<close> other than the sentinel, a version that
  parses, no error detail and an empty nonce (the first request on the stream for \<open>t\<close>)
  is answered, and the only change to the proxy is that the subscribed resources of \<open>t\<close>
  become the set of the request's resource names: last sent version, last sent nonce and last
  applied version are as before.
\<close>

theorem first_request_subscribes_and_replies:
  assumes "ValidURI (TypeUrl req) = Some t" and "t \<noteq> TypeEmptyURI"
    and "parseRequestVersion req = Inr v" and "ErrorDetail req = None"
    and "ResponseNonce req = []"
  shows "respondToRequest ValidURI (p, m) req =
           (True,
            p\<lparr>subscribedResources := (subscribedResources p)(t := set (ResourceNames req))\<rparr>,
            m)"
  using assms by (simp add: respondToRequest_reached)

theorem first_request_subscribes_and_replies_witness:
  "ResponseNonce (exRequest ''RouteConfiguration'' [] [] [''A'', ''B'']) = []
   \<and> respondToRequest exValidURI (exFreshProxy, exMetrics)
         (exRequest ''RouteConfiguration'' [] [] [''A'', ''B''])
       = (True,
          exFreshProxy\<lparr>subscribedResources :=
            (subscribedResources exFreshProxy)(TypeRDS := {''A'', ''B''})\<rparr>,
          exMetrics)"
  using first_request_subscribes_and_replies
          [of exValidURI "exRequest ''RouteConfiguration'' [] [] [''A'', ''B'']" TypeRDS 0
              exFreshProxy exMetrics]
  by (simp add: exValidURI_def exRequest_def parseRequestVersion_def)

text \<open>
  Claim C2. The reconnect case: a request with a non-empty nonce and no error detail, for a
  type URI \<open>t\<close> whose last sent nonce is empty, is answered; the last sent version and the
  last applied version of \<open>t\<close> become the request's parsed version \<open>v\<close>, the subscribed
  resources of \<open>t\<close> become the set of the request's resource names, and the reconnect
  counter goes up by one. The main loop then enqueues exactly one job, for the type-url of
  the request. The case is reached by the requests that pass the checks before it: the
  type-url is known and not the sentinel, and the version parses.
\<close>

theorem reconnect_adopts_version_and_replies:
  assumes "ValidURI (TypeUrl req) = Some t" and "t \<noteq> TypeEmptyURI"
    and "parseRequestVersion req = Inr v" and "ErrorDetail req = None"
    and "ResponseNonce req \<noteq> []" and "GetLastSentNonce p t = []"
    and "p' = p\<lparr>lastSentVersion := (lastSentVersion p)(t := v),
                 lastAppliedVersion := (lastAppliedVersion p)(t := v),
                 subscribedResources := (subscribedResources p)(t := set (ResourceNames req))\<rparr>"
    and "m' = m\<lparr>ProxyReconnectCount := ProxyReconnectCount m + 1\<rparr>"
  shows "respondToRequest ValidURI (p, m) req = (True, p', m')
       \<and> onDiscoveryRequest ValidURI toTypeURI (p, m, workqueues) req
           = (p', m',
              workqueues @ [\<lparr>typeURIs = [toTypeURI (TypeUrl req)], request = Some req\<rparr>])"
  using assms
  by (simp add: onDiscoveryRequest_def respondToRequest_reached GetLastSentNonce_def
      AddJob_def newJob_def)

theorem reconnect_adopts_version_and_replies_witness:
  "GetLastSentNonce exFreshProxy TypeLDS = []
   \<and> respondToRequest exValidURI (exFreshProxy, exMetrics)
         (exRequest ''Listener'' ''42'' ''prev'' [])
       = (True,
          exFreshProxy\<lparr>lastSentVersion := (lastSentVersion exFreshProxy)(TypeLDS := 42),
                       lastAppliedVersion := (lastAppliedVersion exFreshProxy)(TypeLDS := 42),
                       subscribedResources := (subscribedResources exFreshProxy)(TypeLDS := {})\<rparr>,
          exMetrics\<lparr>ProxyReconnectCount := 1\<rparr>)
   \<and> onDiscoveryRequest exValidURI (\<lambda>url. the (exValidURI url)) (exFreshProxy, exMetrics, [])
         (exRequest ''Listener'' ''42'' ''prev'' [])
       = (exFreshProxy\<lparr>lastSentVersion := (lastSentVersion exFreshProxy)(TypeLDS := 42),
                       lastAppliedVersion := (lastAppliedVersion exFreshProxy)(TypeLDS := 42),
                       subscribedResources := (subscribedResources exFreshProxy)(TypeLDS := {})\<rparr>,
          exMetrics\<lparr>ProxyReconnectCount := 1\<rparr>,
          [\<lparr>typeURIs = [TypeLDS], request = Some (exRequest ''Listener'' ''42'' ''prev'' [])\<rparr>])"
  using reconnect_adopts_version_and_replies
          [where ValidURI = exValidURI and req = "exRequest ''Listener'' ''42'' ''prev'' []"
             and t = TypeLDS and v = 42 and p = exFreshProxy and m = exMetrics
             and p' = "exFreshProxy
                        \<lparr>lastSentVersion := (lastSentVersion exFreshProxy)(TypeLDS := 42),
                         lastAppliedVersion := (lastAppliedVersion exFreshProxy)(TypeLDS := 42),
                         subscribedResources := (subscribedResources exFreshProxy)(TypeLDS := {})\<rparr>"
             and m' = "exMetrics\<lparr>ProxyReconnectCount := 1\<rparr>"
             and toTypeURI = "\<lambda>url. the (exValidURI url)" and workqueues = "[]"]
  by (simp add: exValidURI_def exRequest_def exFreshProxy_def exMetrics_def
      GetLastSentNonce_def parseRequestVersion_def ParseUint_def cutoff_def)

text \<open>
  Claim C1, as amended. A request with no error detail whose nonce is the non-empty last
  sent nonce of the proxy for its type URI \<open>t\<close> (known, not the sentinel, with a version
  that parses to \<open>v\<close>) sets the last applied version of \<open>t\<close> to \<open>v\<close>. For a wildcard type
  (CDS, LDS) there is no reply, whatever the resource names, and nothing else changes. For
  any other type the subscribed resources of \<open>t\<close> become the set of the request's resource
  names, and there is a reply exactly when that set differs from the resources last sent. So
  an ACK that carries the resources last sent gets no reply (the main loop enqueues no job)
  and changes the last applied version and, for a type that is not wildcard, the subscribed
  resources, which become the set it carries.
\<close>

theorem ack_on_last_nonce:
  assumes "ValidURI (TypeUrl req) = Some t" and "t \<noteq> TypeEmptyURI"
    and "parseRequestVersion req = Inr v" and "ErrorDetail req = None"
    and "ResponseNonce req = GetLastSentNonce p t" and "GetLastSentNonce p t \<noteq> []"
    and "p' = (if IsWildcardTypeURI t
               then p\<lparr>lastAppliedVersion := (lastAppliedVersion p)(t := v)\<rparr>
               else p\<lparr>lastAppliedVersion := (lastAppliedVersion p)(t := v),
                      subscribedResources :=
                        (subscribedResources p)(t := set (ResourceNames req))\<rparr>)"
  shows "respondToRequest ValidURI (p, m) req =
           (\<not> IsWildcardTypeURI t \<and> set (ResourceNames req) \<noteq> GetLastResourcesSent p t,
            p', m)
       \<and> (set (ResourceNames req) = GetLastResourcesSent p t
            \<longrightarrow> onDiscoveryRequest ValidURI toTypeURI (p, m, workqueues) req
                = (p', m, workqueues))"
  using assms
  by (simp add: onDiscoveryRequest_def respondToRequest_reached GetLastSentNonce_def
      GetLastResourcesSent_def)

theorem ack_on_last_nonce_witness:
  "respondToRequest exValidURI (exProxy, exMetrics)
         (exRequest ''Cluster'' ''1'' ''n1'' [''ignored''])
       = (False,
          exProxy\<lparr>lastAppliedVersion := (lastAppliedVersion exProxy)(TypeCDS := 1)\<rparr>,
          exMetrics)
   \<and> respondToRequest exValidURI (exProxy, exMetrics)
         (exRequest ''RouteConfiguration'' ''4'' ''nr'' [''A'', ''C''])
       = (True,
          exProxy\<lparr>lastAppliedVersion := (lastAppliedVersion exProxy)(TypeRDS := 4),
                  subscribedResources := (subscribedResources exProxy)(TypeRDS := {''A'', ''C''})\<rparr>,
          exMetrics)
   \<and> set (ResourceNames (exRequest ''RouteConfiguration'' ''4'' ''nr'' [''A'']))
       = GetLastResourcesSent exProxy TypeRDS
   \<and> onDiscoveryRequest exValidURI (\<lambda>url. the (exValidURI url)) (exProxy, exMetrics, [])
         (exRequest ''RouteConfiguration'' ''4'' ''nr'' [''A''])
       = (exProxy\<lparr>lastAppliedVersion := (lastAppliedVersion exProxy)(TypeRDS := 4),
                  subscribedResources := (subscribedResources exProxy)(TypeRDS := {''A''})\<rparr>,
          exMetrics, [])"
  using ack_on_last_nonce
          [where ValidURI = exValidURI
             and req = "exRequest ''Cluster'' ''1'' ''n1'' [''ignored'']"
             and t = TypeCDS and v = 1 and p = exProxy and m = exMetrics
             and p' = "exProxy\<lparr>lastAppliedVersion := (lastAppliedVersion exProxy)(TypeCDS := 1)\<rparr>"
             and toTypeURI = "\<lambda>url. the (exValidURI url)" and workqueues = "[]"]
        ack_on_last_nonce
          [where ValidURI = exValidURI
             and req = "exRequest ''RouteConfiguration'' ''4'' ''nr'' [''A'', ''C'']"
             and t = TypeRDS and v = 4 and p = exProxy and m = exMetrics
             and p' = "exProxy\<lparr>lastAppliedVersion := (lastAppliedVersion exProxy)(TypeRDS := 4),
                              subscribedResources :=
                                (subscribedResources exProxy)(TypeRDS := {''A'', ''C''})\<rparr>"
             and toTypeURI = "\<lambda>url. the (exValidURI url)" and workqueues = "[]"]
        ack_on_last_nonce
          [where ValidURI = exValidURI
             and req = "exRequest ''RouteConfiguration'' ''4'' ''nr'' [''A'']"
             and t = TypeRDS and v = 4 and p = exProxy and m = exMetrics
             and p' = "exProxy\<lparr>lastAppliedVersion := (lastAppliedVersion exProxy)(TypeRDS := 4),
                              subscribedResources :=
                                (subscribedResources exProxy)(TypeRDS := {''A''})\<rparr>"
             and toTypeURI = "\<lambda>url. the (exValidURI url)" and workqueues = "[]"]
  by (simp add: exValidURI_def exRequest_def exProxy_def IsWildcardTypeURI_def
      GetLastSentNonce_def GetLastResourcesSent_def parseRequestVersion_def ParseUint_def
      cutoff_def)

text \<open>
  Claim C1 as stated says that an ACK carrying the resources last sent changes only the last
  applied version. On a proxy subscribed to \<open>A\<close> and \<open>B\<close> for RDS that was last sent
  \<open>A\<close> alone, the ACK on the last nonce with resource names \<open>A\<close> gets no reply, and it
  also changes the subscribed resources of RDS, from \<open>A\<close> and \<open>B\<close> to \<open>A\<close>.
\<close>

theorem ack_changes_subscription_counterexample:
  "exValidURI (TypeUrl (exRequest ''RouteConfiguration'' ''4'' ''nr'' [''A''])) = Some TypeRDS
   \<and> ErrorDetail (exRequest ''RouteConfiguration'' ''4'' ''nr'' [''A'']) = None
   \<and> GetLastSentNonce exProxy TypeRDS \<noteq> []
   \<and> ResponseNonce (exRequest ''RouteConfiguration'' ''4'' ''nr'' [''A''])
       = GetLastSentNonce exProxy TypeRDS
   \<and> getRequestedResourceNamesSet (exRequest ''RouteConfiguration'' ''4'' ''nr'' [''A''])
       = GetLastResourcesSent exProxy TypeRDS
   \<and> fst (respondToRequest exValidURI (exProxy, exMetrics)
             (exRequest ''RouteConfiguration'' ''4'' ''nr'' [''A''])) = False
   \<and> subscribedResources exProxy TypeRDS = {''A'', ''B''}
   \<and> subscribedResources
         (fst (snd (respondToRequest exValidURI (exProxy, exMetrics)
                      (exRequest ''RouteConfiguration'' ''4'' ''nr'' [''A''])))) TypeRDS
       = {''A''}
   \<and> subscribedResources
         (fst (snd (respondToRequest exValidURI (exProxy, exMetrics)
                      (exRequest ''RouteConfiguration'' ''4'' ''nr'' [''A''])))) TypeRDS
       \<noteq> subscribedResources exProxy TypeRDS"
  by (simp add: respondToRequest_def exValidURI_def exRequest_def exProxy_def
      IsWildcardTypeURI_def GetLastSentNonce_def GetLastResourcesSent_def
      SetLastAppliedVersion_def SetSubscribedResources_def getRequestedResourceNamesSet_def
      parseRequestVersion_def ParseUint_def cutoff_def Let_def)

section \<open>Properties of the stream\<close>

text \<open>
  Claim C5. When a proxy-broadcast event reaches the main loop of a stream: if the last sent
  nonce of the proxy is empty for LDS and for CDS, nothing is enqueued; otherwise exactly one
  job is added to the work queue, for the type URIs CDS, EDS, LDS and RDS; SDS is not among
  them.
\<close>

theorem broadcast_enqueues_one_job:
  "(GetLastSentNonce proxy TypeLDS = [] \<and> GetLastSentNonce proxy TypeCDS = []
      \<longrightarrow> onBroadcastUpdate proxy workqueues = workqueues)
   \<and> (\<not> (GetLastSentNonce proxy TypeLDS = [] \<and> GetLastSentNonce proxy TypeCDS = [])
      \<longrightarrow> (\<exists>job. onBroadcastUpdate proxy workqueues = workqueues @ [job]
                \<and> typeURIs job = [TypeCDS, TypeEDS, TypeLDS, TypeRDS]
                \<and> set (typeURIs job) = {TypeCDS, TypeEDS, TypeLDS, TypeRDS}
                \<and> TypeSDS \<notin> set (typeURIs job)))"
  by (auto simp add: onBroadcastUpdate_def shouldPushUpdate_def AddJob_def newJob_def)

theorem broadcast_enqueues_one_job_witness:
  "GetLastSentNonce exFreshProxy TypeLDS = [] \<and> GetLastSentNonce exFreshProxy TypeCDS = []
   \<and> onBroadcastUpdate exFreshProxy [] = []
   \<and> GetLastSentNonce exProxy TypeCDS = ''n1''
   \<and> (\<exists>job. onBroadcastUpdate exProxy [] = [] @ [job]
          \<and> typeURIs job = [TypeCDS, TypeEDS, TypeLDS, TypeRDS]
          \<and> set (typeURIs job) = {TypeCDS, TypeEDS, TypeLDS, TypeRDS}
          \<and> TypeSDS \<notin> set (typeURIs job))"
  using broadcast_enqueues_one_job [of exFreshProxy "[]"]
        broadcast_enqueues_one_job [of exProxy "[]"]
  by (simp add: exFreshProxy_def exProxy_def GetLastSentNonce_def)

text \<open>
  Claim C9. On a new stream (whose client certificate has been validated, the step before),
  if the configured maximum of data plane connections is not 0 and the number of connected
  proxies in the registry is at least that maximum, the stream ends with the error
  too-many-connections and the server, its registry included, is as before: no proxy has been
  registered. Whether the client was validated or not, a stream over the cap ends with an
  error and leaves the server as it was. With a maximum of 0 the stream never ends with the
  error too-many-connections.
\<close>

theorem connection_cap:
  "(ValidateClient c = Inr (cn, sn)
      \<and> MaxDataPlaneConnections s \<noteq> 0
      \<and> MaxDataPlaneConnections s \<le> GetConnectedProxyCount c (proxyRegistry s)
      \<longrightarrow> StreamAggregatedResources_accept c s = (Inl errTooManyConnections, s))
   \<and> (MaxDataPlaneConnections s \<noteq> 0
      \<and> MaxDataPlaneConnections s \<le> GetConnectedProxyCount c (proxyRegistry s)
      \<longrightarrow> (\<exists>e. fst (StreamAggregatedResources_accept c s) = Inl e)
        \<and> snd (StreamAggregatedResources_accept c s) = s)
   \<and> (MaxDataPlaneConnections s = 0
      \<longrightarrow> fst (StreamAggregatedResources_accept c s) \<noteq> Inl errTooManyConnections)"
  by (auto simp add: StreamAggregatedResources_accept_def Let_def
      split: sum.splits prod.splits)

theorem connection_cap_witness:
  "MaxDataPlaneConnections (exServer 1)
     \<le> GetConnectedProxyCount (exCollaborators KindSidecar (Inr exPod) (Inr ''bookbuyer''))
          (proxyRegistry (exServer 1))
   \<and> StreamAggregatedResources_accept
        (exCollaborators KindSidecar (Inr exPod) (Inr ''bookbuyer'')) (exServer 1)
       = (Inl errTooManyConnections, exServer 1)
   \<and> fst (StreamAggregatedResources_accept
        (exCollaborators KindSidecar (Inr exPod) (Inr ''bookbuyer'')) (exServer 0))
       \<noteq> Inl errTooManyConnections"
  using connection_cap
          [where c = "exCollaborators KindSidecar (Inr exPod) (Inr ''bookbuyer'')"
             and s = "exServer 1" and cn = "''bookbuyer.bookstore.cluster.local''"
             and sn = "''1234''"]
        connection_cap
          [where c = "exCollaborators KindSidecar (Inr exPod) (Inr ''bookbuyer'')"
             and s = "exServer 0"]
  by (simp add: exCollaborators_def exServer_def)

text \<open>What \<open>recordPodMetadata\<close> returns, by case.\<close>

lemma recordPodMetadata_cases:
  "recordPodMetadata c p =
     (if kind p = KindGateway then (None, p)
      else case GetPodFromCertificate c (certificateCommonName p) of
             Inl err \<Rightarrow> (None, p)
           | Inr pod \<Rightarrow>
               (case GetServiceIdentityFromProxyCertificate c (certificateCommonName p) of
                  Inl err \<Rightarrow> Some (External err)
                | Inr certSA \<Rightarrow>
                    if ToK8sServiceAccount c certSA
                         = \<lparr>Namespace = podNamespace pod, Name = podServiceAccountName pod\<rparr>
                    then None else Some errServiceAccountMismatch,
                p\<lparr>podMetadata := Some
                    \<lparr>UID = podUID pod, PodName = podName pod, PodNamespace = podNamespace pod,
                     ServiceAccount = \<lparr>Namespace = podNamespace pod,
                                        Name = podServiceAccountName pod\<rparr>,
                     WorkloadKind = fst (controllerOf (podOwnerReferences pod)),
                     WorkloadName = snd (controllerOf (podOwnerReferences pod))\<rparr>\<rparr>))"
  by (simp add: recordPodMetadata_def Let_def split: sum.splits prod.splits)

text \<open>
  Claim C10. On a new stream that has passed the validation of the client, the connection cap
  and \<open>NewProxy\<close>, the result of \<open>recordPodMetadata\<close> ends the stream exactly when it
  is the service account mismatch; with any other result the proxy, as \<open>recordPodMetadata\<close>
  leaves it, is registered and the stream goes on. When no pod is found for the certificate
  the result is nil and the proxy is registered as \<open>NewProxy\<close> made it, with no metadata
  recorded. A proxy of kind gateway skips the recording and is registered as it is. When the
  service identity cannot be derived from the common name, \<open>recordPodMetadata\<close> returns
  that error, the caller ignores it and the proxy is registered.
\<close>

theorem only_service_account_mismatch_ends_stream:
  assumes "ValidateClient c = Inr (cn, sn)"
    and "\<not> (MaxDataPlaneConnections s \<noteq> 0
            \<and> MaxDataPlaneConnections s \<le> GetConnectedProxyCount c (proxyRegistry s))"
    and "NewProxy c cn sn (GetIPFromContext c) = Inr proxy"
    and "s1 = s\<lparr>metricsStore := (metricsStore s)
                  \<lparr>ProxyConnectCount := ProxyConnectCount (metricsStore s) + 1\<rparr>\<rparr>"
  shows "(fst (recordPodMetadata c proxy) = Some errServiceAccountMismatch
            \<longrightarrow> StreamAggregatedResources_accept c s = (Inl errServiceAccountMismatch, s1))
       \<and> (fst (recordPodMetadata c proxy) \<noteq> Some errServiceAccountMismatch
            \<longrightarrow> StreamAggregatedResources_accept c s
                 = (Inr (snd (recordPodMetadata c proxy)),
                    s1\<lparr>proxyRegistry :=
                         RegisterProxy c (proxyRegistry s) (snd (recordPodMetadata c proxy))\<rparr>))
       \<and> (kind proxy \<noteq> KindGateway
            \<and> (\<exists>e. GetPodFromCertificate c (certificateCommonName proxy) = Inl e)
            \<longrightarrow> recordPodMetadata c proxy = (None, proxy)
               \<and> StreamAggregatedResources_accept c s
                 = (Inr proxy, s1\<lparr>proxyRegistry := RegisterProxy c (proxyRegistry s) proxy\<rparr>))
       \<and> (kind proxy = KindGateway
            \<longrightarrow> recordPodMetadata c proxy = (None, proxy)
               \<and> StreamAggregatedResources_accept c s
                 = (Inr proxy, s1\<lparr>proxyRegistry := RegisterProxy c (proxyRegistry s) proxy\<rparr>))
       \<and> (kind proxy \<noteq> KindGateway
            \<and> (\<exists>pod. GetPodFromCertificate c (certificateCommonName proxy) = Inr pod)
            \<and> GetServiceIdentityFromProxyCertificate c (certificateCommonName proxy) = Inl e
            \<longrightarrow> fst (recordPodMetadata c proxy) = Some (External e)
               \<and> StreamAggregatedResources_accept c s
                 = (Inr (snd (recordPodMetadata c proxy)),
                    s1\<lparr>proxyRegistry :=
                         RegisterProxy c (proxyRegistry s) (snd (recordPodMetadata c proxy))\<rparr>))"
proof -
  have acc: "StreamAggregatedResources_accept c s =
      (if fst (recordPodMetadata c proxy) = Some errServiceAccountMismatch
       then (Inl errServiceAccountMismatch, s1)
       else (Inr (snd (recordPodMetadata c proxy)),
             s1\<lparr>proxyRegistry :=
                  RegisterProxy c (proxyRegistry s) (snd (recordPodMetadata c proxy))\<rparr>))"
    using assms
    by (simp add: StreamAggregatedResources_accept_def Let_def split: prod.splits)
  have miss: "kind proxy \<noteq> KindGateway
       \<and> (\<exists>e. GetPodFromCertificate c (certificateCommonName proxy) = Inl e)
       \<longrightarrow> recordPodMetadata c proxy = (None, proxy)"
    by (auto simp add: recordPodMetadata_cases)
  have gw: "kind proxy = KindGateway \<longrightarrow> recordPodMetadata c proxy = (None, proxy)"
    by (simp add: recordPodMetadata_cases)
  have ident: "kind proxy \<noteq> KindGateway
       \<and> (\<exists>pod. GetPodFromCertificate c (certificateCommonName proxy) = Inr pod)
       \<and> GetServiceIdentityFromProxyCertificate c (certificateCommonName proxy) = Inl e
       \<longrightarrow> fst (recordPodMetadata c proxy) = Some (External e)"
    by (auto simp add: recordPodMetadata_cases)
  show ?thesis
    using miss gw ident by (auto simp add: acc)
qed

theorem only_service_account_mismatch_ends_stream_witness:
  "StreamAggregatedResources_accept
       (exCollaborators KindSidecar (Inl ''pod not found'') (Inr ''bookbuyer'')) (exServer 0)
     = (Inr (exNewProxy KindSidecar),
        (exServer 0)\<lparr>metricsStore := exMetrics\<lparr>ProxyConnectCount := 2\<rparr>,
                     proxyRegistry := [exProxy, exNewProxy KindSidecar]\<rparr>)
   \<and> podMetadata (exNewProxy KindSidecar) = None
   \<and> StreamAggregatedResources_accept
       (exCollaborators KindGateway (Inr exPod) (Inr ''bookthief'')) (exServer 0)
     = (Inr (exNewProxy KindGateway),
        (exServer 0)\<lparr>metricsStore := exMetrics\<lparr>ProxyConnectCount := 2\<rparr>,
                     proxyRegistry := [exProxy, exNewProxy KindGateway]\<rparr>)
   \<and> fst (recordPodMetadata
            (exCollaborators KindSidecar (Inr exPod) (Inl ''no identity in common name''))
            (exNewProxy KindSidecar))
     = Some (External ''no identity in common name'')
   \<and> (\<exists>p. StreamAggregatedResources_accept
         (exCollaborators KindSidecar (Inr exPod) (Inl ''no identity in common name''))
         (exServer 0)
       = (Inr p,
          (exServer 0)\<lparr>metricsStore := exMetrics\<lparr>ProxyConnectCount := 2\<rparr>,
                       proxyRegistry := [exProxy, p]\<rparr>))
   \<and> StreamAggregatedResources_accept
       (exCollaborators KindSidecar (Inr exPod) (Inr ''bookthief'')) (exServer 0)
     = (Inl errServiceAccountMismatch,
        (exServer 0)\<lparr>metricsStore := exMetrics\<lparr>ProxyConnectCount := 2\<rparr>\<rparr>)
   \<and> StreamAggregatedResources_accept
       (exCollaborators KindSidecar (Inr exPod) (Inr ''bookbuyer'')) (exServer 0)
     = (Inr (snd (recordPodMetadata
                   (exCollaborators KindSidecar (Inr exPod) (Inr ''bookbuyer''))
                   (exNewProxy KindSidecar))),
        (exServer 0)\<lparr>metricsStore := exMetrics\<lparr>ProxyConnectCount := 2\<rparr>,
                     proxyRegistry := [exProxy,
                       snd (recordPodMetadata
                              (exCollaborators KindSidecar (Inr exPod) (Inr ''bookbuyer''))
                              (exNewProxy KindSidecar))]\<rparr>)"
  using only_service_account_mismatch_ends_stream
          [where c = "exCollaborators KindSidecar (Inl ''pod not found'') (Inr ''bookbuyer'')"
             and s = "exServer 0" and cn = "''bookbuyer.bookstore.cluster.local''"
             and sn = "''1234''" and proxy = "exNewProxy KindSidecar"
             and ?s1.0 = "(exServer 0)\<lparr>metricsStore := exMetrics\<lparr>ProxyConnectCount := 2\<rparr>\<rparr>"]
        only_service_account_mismatch_ends_stream
          [where c = "exCollaborators KindGateway (Inr exPod) (Inr ''bookthief'')"
             and s = "exServer 0" and cn = "''bookbuyer.bookstore.cluster.local''"
             and sn = "''1234''" and proxy = "exNewProxy KindGateway"
             and ?s1.0 = "(exServer 0)\<lparr>metricsStore := exMetrics\<lparr>ProxyConnectCount := 2\<rparr>\<rparr>"]
        only_service_account_mismatch_ends_stream
          [where c = "exCollaborators KindSidecar (Inr exPod) (Inl ''no identity in common name'')"
             and s = "exServer 0" and cn = "''bookbuyer.bookstore.cluster.local''"
             and sn = "''1234''" and proxy = "exNewProxy KindSidecar"
             and e = "''no identity in common name''"
             and ?s1.0 = "(exServer 0)\<lparr>metricsStore := exMetrics\<lparr>ProxyConnectCount := 2\<rparr>\<rparr>"]
        only_service_account_mismatch_ends_stream
          [where c = "exCollaborators KindSidecar (Inr exPod) (Inr ''bookthief'')"
             and s = "exServer 0" and cn = "''bookbuyer.bookstore.cluster.local''"
             and sn = "''1234''" and proxy = "exNewProxy KindSidecar"
             and ?s1.0 = "(exServer 0)\<lparr>metricsStore := exMetrics\<lparr>ProxyConnectCount := 2\<rparr>\<rparr>"]
        only_service_account_mismatch_ends_stream
          [where c = "exCollaborators KindSidecar (Inr exPod) (Inr ''bookbuyer'')"
             and s = "exServer 0" and cn = "''bookbuyer.bookstore.cluster.local''"
             and sn = "''1234''" and proxy = "exNewProxy KindSidecar"
             and ?s1.0 = "(exServer 0)\<lparr>metricsStore := exMetrics\<lparr>ProxyConnectCount := 2\<rparr>\<rparr>"]
  by (simp add: exCollaborators_def exServer_def exNewProxy_def exMetrics_def exPod_def
      exFreshProxy_def recordPodMetadata_cases)

section \<open>Properties of the dispatcher\<close>

text \<open>\<open>strings.HasSuffix\<close> decides whether the string ends in the given suffix.\<close>

lemma HasSuffix_iff_suffix: "HasSuffix s suf \<longleftrightarrow> suffix suf s"
proof
  assume "HasSuffix s suf"
  then have "s = take (length s - length suf) s @ suf"
    by (metis HasSuffix_def append_take_drop_id)
  then show "suffix suf s"
    by (metis suffixI)
next
  assume "suffix suf s"
  then obtain xs where "s = xs @ suf"
    by (auto simp add: suffix_def)
  then show "HasSuffix s suf"
    by (simp add: HasSuffix_def)
qed

text \<open>
  Claim C8. A published event is a delta exactly when the string of its topic does not end
  in \<open>updated\<close> or its old object and its new object are not equal. An event that is
  neither a delta nor a schedule-proxy-broadcast leaves the state of the coalescing loop
  (flag, timers, published events, counter) as it was.
\<close>

theorem delta_filter:
  "(isDeltaUpdate String msg
      \<longleftrightarrow> \<not> suffix ''updated'' (String (AnnouncementType msg)) \<or> OldObj msg \<noteq> NewObj msg)
   \<and> (\<not> isDeltaUpdate String msg \<and> AnnouncementType msg \<noteq> ScheduleProxyBroadcast
      \<longrightarrow> dispatcherStep String now st (FromSubChannel (IsPubSubMessage msg)) = st)"
  by (auto simp add: isDeltaUpdate_def HasSuffix_iff_suffix)

theorem delta_filter_witness:
  "\<not> isDeltaUpdate exString (exMessage PodUpdated (Some 1) (Some 1))
   \<and> dispatcherStep exString 5 exIdle
        (FromSubChannel (IsPubSubMessage (exMessage PodUpdated (Some 1) (Some 1)))) = exIdle
   \<and> isDeltaUpdate exString (exMessage PodUpdated (Some 1) (Some 2))
   \<and> isDeltaUpdate exString (exMessage PodAdded None None)"
  using delta_filter [of exString "exMessage PodUpdated (Some 1) (Some 1)" 5 exIdle]
        delta_filter [of exString "exMessage PodUpdated (Some 1) (Some 2)" 5 exIdle]
        delta_filter [of exString "exMessage PodAdded None None" 5 exIdle]
  by (simp add: exString_def exMessage_def suffix_def)

text \<open>
  A run of qualifying events on a loop that has a broadcast scheduled: each one re-arms the
  moving deadline and nothing else.
\<close>

lemma dispatcher_append:
  "dispatcher String st (xs @ ys) =
     (case dispatcher String st xs of None \<Rightarrow> None | Some st' \<Rightarrow> dispatcher String st' ys)"
  by (induction xs arbitrary: st) auto

lemma dispatcher_window:
  assumes "broadcastScheduled st"
    and "\<forall>(t, m) \<in> set evs. isDeltaUpdate String m \<or> AnnouncementType m = ScheduleProxyBroadcast"
  shows "dispatcher String st (map (\<lambda>(t, m). (t, FromSubChannel (IsPubSubMessage m))) evs) =
     Some (if evs = [] then st
           else st\<lparr>chanMovingDeadline := Some (fst (last evs) + maxGraceDeadlineTime)\<rparr>)"
  using assms
proof (induction evs arbitrary: st)
  case Nil
  then show ?case by simp
next
  case (Cons ev evs)
  obtain t m where ev: "ev = (t, m)" by (cases ev)
  let ?st1 = "st\<lparr>chanMovingDeadline := Some (t + maxGraceDeadlineTime)\<rparr>"
  have step: "dispatcherStep String t st (FromSubChannel (IsPubSubMessage m)) = ?st1"
    using Cons.prems ev by (auto simp add: Let_def)
  have "broadcastScheduled ?st1" using Cons.prems by simp
  then have "dispatcher String ?st1 (map (\<lambda>(t, m). (t, FromSubChannel (IsPubSubMessage m))) evs)
     = Some (if evs = [] then ?st1
             else ?st1\<lparr>chanMovingDeadline := Some (fst (last evs) + maxGraceDeadlineTime)\<rparr>)"
    using Cons.IH Cons.prems by simp
  then show ?case
    using step ev by simp
qed

text \<open>
  Claim C4. In the coalescing loop: from the unscheduled state a qualifying event (a delta
  or a schedule-proxy-broadcast) marks a broadcast scheduled and arms the hard deadline 15 s
  and the grace deadline 3 s from now; while a broadcast is scheduled, a qualifying event
  re-arms the grace deadline only, the hard deadline keeping its instant; when either timer
  is received, one proxy-broadcast is published, the counter goes up by one, both timer
  channels are cleared and the loop is unscheduled; in the unscheduled state neither timer
  can be received. So for one or more qualifying events from the unscheduled state, followed
  by the first timer arm taken (the grace deadline, due 3 s after the last event, or the hard
  deadline, due 15 s after the first), the loop is back in the state it started from with
  exactly one more proxy-broadcast published and the counter one higher. Instants are
  natural numbers of nanoseconds, and the arm taken by \<open>select\<close> is an input.
\<close>

theorem one_broadcast_per_window:
  fixes st :: "'obj dispatcherState"
  shows
  "(\<not> broadcastScheduled st
      \<and> (isDeltaUpdate String m \<or> AnnouncementType m = ScheduleProxyBroadcast)
      \<longrightarrow> dispatcherStep String now st (FromSubChannel (IsPubSubMessage m))
          = st\<lparr>broadcastScheduled := True,
               chanMaxDeadline := Some (now + 15 * Second),
               chanMovingDeadline := Some (now + 3 * Second)\<rparr>)
   \<and> (broadcastScheduled st
      \<and> (isDeltaUpdate String m \<or> AnnouncementType m = ScheduleProxyBroadcast)
      \<longrightarrow> dispatcherStep String now st (FromSubChannel (IsPubSubMessage m))
          = st\<lparr>chanMovingDeadline := Some (now + 3 * Second)\<rparr>)
   \<and> (fire = FromMovingDeadline \<or> fire = FromMaxDeadline
      \<longrightarrow> dispatcherStep String now st fire
          = st\<lparr>published := published st
                   @ [\<lparr>AnnouncementType = ProxyBroadcast, OldObj = None, NewObj = None\<rparr>],
               dispatcherMetrics := (dispatcherMetrics st)
                 \<lparr>ProxyBroadcastEventCount :=
                    ProxyBroadcastEventCount (dispatcherMetrics st) + 1\<rparr>,
               broadcastScheduled := False,
               chanMovingDeadline := None,
               chanMaxDeadline := None\<rparr>)
   \<and> (\<not> broadcastScheduled st \<and> chanMovingDeadline st = None \<and> chanMaxDeadline st = None
      \<longrightarrow> \<not> canReceive now st FromMovingDeadline \<and> \<not> canReceive now st FromMaxDeadline)
   \<and> (\<not> broadcastScheduled st \<and> chanMovingDeadline st = None \<and> chanMaxDeadline st = None
      \<and> (\<forall>(t, m) \<in> set ((t0, m0) # evs).
            isDeltaUpdate String m \<or> AnnouncementType m = ScheduleProxyBroadcast)
      \<and> (fire = FromMovingDeadline \<and> fst (last ((t0, m0) # evs)) + 3 * Second \<le> tf
          \<or> fire = FromMaxDeadline \<and> t0 + 15 * Second \<le> tf)
      \<longrightarrow> dispatcher String st
            (map (\<lambda>(t, m). (t, FromSubChannel (IsPubSubMessage m))) ((t0, m0) # evs))
          = Some (st\<lparr>broadcastScheduled := True,
                     chanMaxDeadline := Some (t0 + 15 * Second),
                     chanMovingDeadline := Some (fst (last ((t0, m0) # evs)) + 3 * Second)\<rparr>)
        \<and> dispatcher String st
            (map (\<lambda>(t, m). (t, FromSubChannel (IsPubSubMessage m))) ((t0, m0) # evs)
             @ [(tf, fire)])
          = Some (st\<lparr>published := published st
                       @ [\<lparr>AnnouncementType = ProxyBroadcast, OldObj = None, NewObj = None\<rparr>],
                     dispatcherMetrics := (dispatcherMetrics st)
                       \<lparr>ProxyBroadcastEventCount :=
                          ProxyBroadcastEventCount (dispatcherMetrics st) + 1\<rparr>\<rparr>))"
proof -
  let ?q = "\<lambda>m. isDeltaUpdate String m \<or> AnnouncementType m = ScheduleProxyBroadcast"
  let ?arm = "\<lambda>(t, m). (t, FromSubChannel (IsPubSubMessage m :: 'obj busMessage))"
  let ?pub = "\<lambda>s :: 'obj dispatcherState.
     s\<lparr>published := published s
           @ [\<lparr>AnnouncementType = ProxyBroadcast, OldObj = None, NewObj = None\<rparr>],
       dispatcherMetrics := (dispatcherMetrics s)
         \<lparr>ProxyBroadcastEventCount := ProxyBroadcastEventCount (dispatcherMetrics s) + 1\<rparr>,
       broadcastScheduled := False,
       chanMovingDeadline := None,
       chanMaxDeadline := None\<rparr>"
  have first: "\<not> broadcastScheduled st \<and> ?q m
      \<longrightarrow> dispatcherStep String now st (FromSubChannel (IsPubSubMessage m))
          = st\<lparr>broadcastScheduled := True,
               chanMaxDeadline := Some (now + 15 * Second),
               chanMovingDeadline := Some (now + 3 * Second)\<rparr>" for now m
    by (auto simp add: Let_def maxBroadcastDeadlineTime_def maxGraceDeadlineTime_def)
  have further: "broadcastScheduled st \<and> ?q m
      \<longrightarrow> dispatcherStep String now st (FromSubChannel (IsPubSubMessage m))
          = st\<lparr>chanMovingDeadline := Some (now + 3 * Second)\<rparr>"
    by (auto simp add: Let_def maxGraceDeadlineTime_def)
  have fires: "fire = FromMovingDeadline \<or> fire = FromMaxDeadline
      \<longrightarrow> dispatcherStep String now s fire = ?pub s" for s :: "'obj dispatcherState" and now
    by auto
  have idle: "\<not> broadcastScheduled st \<and> chanMovingDeadline st = None \<and> chanMaxDeadline st = None
      \<longrightarrow> \<not> canReceive now st FromMovingDeadline \<and> \<not> canReceive now st FromMaxDeadline"
    by simp
  have window: "dispatcher String st (map ?arm ((t0, m0) # evs))
          = Some (st\<lparr>broadcastScheduled := True,
                     chanMaxDeadline := Some (t0 + 15 * Second),
                     chanMovingDeadline := Some (fst (last ((t0, m0) # evs)) + 3 * Second)\<rparr>)
        \<and> dispatcher String st (map ?arm ((t0, m0) # evs) @ [(tf, fire)])
          = Some (st\<lparr>published := published st
                       @ [\<lparr>AnnouncementType = ProxyBroadcast, OldObj = None, NewObj = None\<rparr>],
                     dispatcherMetrics := (dispatcherMetrics st)
                       \<lparr>ProxyBroadcastEventCount :=
                          ProxyBroadcastEventCount (dispatcherMetrics st) + 1\<rparr>\<rparr>)"
    if idle_st: "\<not> broadcastScheduled st" "chanMovingDeadline st = None" "chanMaxDeadline st = None"
      and q: "\<forall>(t, m) \<in> set ((t0, m0) # evs). ?q m"
      and due: "fire = FromMovingDeadline \<and> fst (last ((t0, m0) # evs)) + 3 * Second \<le> tf
          \<or> fire = FromMaxDeadline \<and> t0 + 15 * Second \<le> tf"
  proof -
    let ?st1 = "st\<lparr>broadcastScheduled := True,
               chanMaxDeadline := Some (t0 + 15 * Second),
               chanMovingDeadline := Some (t0 + 3 * Second)\<rparr>"
    let ?st2 = "st\<lparr>broadcastScheduled := True,
               chanMaxDeadline := Some (t0 + 15 * Second),
               chanMovingDeadline := Some (fst (last ((t0, m0) # evs)) + 3 * Second)\<rparr>"
    have s1: "dispatcherStep String t0 st (FromSubChannel (IsPubSubMessage m0)) = ?st1"
      using first [of m0 t0] idle_st q by (auto simp del: dispatcherStep.simps)
    have "dispatcher String ?st1 (map ?arm evs)
        = Some (if evs = [] then ?st1
                else ?st1\<lparr>chanMovingDeadline := Some (fst (last evs) + maxGraceDeadlineTime)\<rparr>)"
      using q by (intro dispatcher_window) auto
    then have run: "dispatcher String st (map ?arm ((t0, m0) # evs)) = Some ?st2"
      using s1 by (simp add: maxGraceDeadlineTime_def)
    have can: "canReceive tf ?st2 fire"
      using due by auto
    have "?pub ?st2 = st\<lparr>published := published st
                       @ [\<lparr>AnnouncementType = ProxyBroadcast, OldObj = None, NewObj = None\<rparr>],
                     dispatcherMetrics := (dispatcherMetrics st)
                       \<lparr>ProxyBroadcastEventCount :=
                          ProxyBroadcastEventCount (dispatcherMetrics st) + 1\<rparr>\<rparr>"
      using idle_st by simp
    then have "dispatcher String ?st2 [(tf, fire)]
        = Some (st\<lparr>published := published st
                       @ [\<lparr>AnnouncementType = ProxyBroadcast, OldObj = None, NewObj = None\<rparr>],
                     dispatcherMetrics := (dispatcherMetrics st)
                       \<lparr>ProxyBroadcastEventCount :=
                          ProxyBroadcastEventCount (dispatcherMetrics st) + 1\<rparr>\<rparr>)"
      using can fires [of tf ?st2] due by auto
    then show ?thesis
      using run by (simp only: dispatcher_append option.case)
  qed
  show ?thesis
    using first [of m now] further fires [of now st] idle window by blast
qed

theorem one_broadcast_per_window_witness:
  "dispatcher exString exIdle
      (map (\<lambda>(t, m). (t, FromSubChannel (IsPubSubMessage m)))
         ((0, exMessage PodAdded None (Some 1)) # exWindow))
     = Some (exIdle\<lparr>broadcastScheduled := True,
                    chanMaxDeadline := Some (15 * Second),
                    chanMovingDeadline := Some (17 * Second)\<rparr>)
   \<and> dispatcher exString exIdle
      (map (\<lambda>(t, m). (t, FromSubChannel (IsPubSubMessage m)))
         ((0, exMessage PodAdded None (Some 1)) # exWindow)
       @ [(15 * Second, FromMaxDeadline)])
     = Some (exIdle\<lparr>published :=
                      [\<lparr>AnnouncementType = ProxyBroadcast, OldObj = None, NewObj = None\<rparr>],
                    dispatcherMetrics := exMetrics\<lparr>ProxyBroadcastEventCount := 1\<rparr>\<rparr>)
   \<and> \<not> canReceive (15 * Second) exIdle FromMovingDeadline
   \<and> \<not> canReceive (15 * Second) exIdle FromMaxDeadline"
  using one_broadcast_per_window
          [where st = exIdle and String = exString and m = "exMessage PodAdded None (Some 1)"
             and now = "15 * Second" and fire = FromMaxDeadline and ?t0.0 = 0
             and ?m0.0 = "exMessage PodAdded None (Some 1)" and evs = exWindow
             and tf = "15 * Second"]
  by (simp add: exIdle_def exWindow_def exMessage_def exString_def exMetrics_def
      isDeltaUpdate_def HasSuffix_def Second_def)

end
